theory Spec2Isabelle
  imports Main "HOL-Library.Word" "HOL-Library.Signed_Division"
begin

unbundle bit_operations_syntax

section \<open>C types and platform constants\<close>

text \<open>
  The unit under verification is \<^verbatim>\<open>common/ioevent.c\<close> of FastDFS 5.01: one source
  text that the preprocessor turns into one of three programs, for epoll, kqueue or
  Solaris event ports.  A C \<^verbatim>\<open>int\<close> is a 32-bit word (read signed by \<open>sint\<close> and
  compared by \<open>\<le>s\<close>), the 16-bit fields of \<^verbatim>\<open>struct kevent\<close> are 16-bit words, and
  a pointer is an address with \<open>NULL = 0\<close>.
\<close>

type_synonym c_int = "32 word"
type_synonym c_uint = "32 word"
type_synonym c_short = "16 word"
type_synonym c_ushort = "16 word"
type_synonym ptr = nat

abbreviation NULL :: ptr where
  "NULL \<equiv> 0"

text \<open>The three values of the build-time backend switch (\<^verbatim>\<open>#if IOEVENT_USE_...\<close>).\<close>

datatype backend = IOEVENT_USE_EPOLL | IOEVENT_USE_KQUEUE | IOEVENT_USE_PORT

text \<open>
  The macros that \<^verbatim>\<open>ioevent.c\<close> takes from \<^verbatim>\<open>ioevent.h\<close> and from the system headers
  are not part of the source text, so every function below takes them as a parameter
  \<open>K\<close>.  The \<^verbatim>\<open>EVFILT_*\<close> and \<^verbatim>\<open>EV_*\<close> constants are given at the width of the
  \<^verbatim>\<open>struct kevent\<close> field that holds them; \<open>sizeof_event\<close> is the size in bytes of
  the backend's event structure.
\<close>

record platform =
  EVFILT_READ :: c_short
  EVFILT_WRITE :: c_short
  EV_ADD :: c_ushort
  EV_DELETE :: c_ushort
  EV_EOF :: c_ushort
  KPOLLIN :: c_int
  KPOLLOUT :: c_int
  KPOLLHUP :: c_int
  IOEVENT_READ :: c_int
  IOEVENT_WRITE :: c_int
  EINTR :: c_int
  EAGAIN :: c_int
  ETIME :: c_int
  ENOMEM :: c_int
  sizeof_event :: "backend \<Rightarrow> nat"

text \<open>
  One concrete choice of the constants, used to run the functions on examples: the
  numbering found on BSD-style systems for the kqueue constants and on Solaris for the
  error numbers.
\<close>

definition sample_platform :: platform where
  "sample_platform =
     \<lparr>EVFILT_READ = - 1, EVFILT_WRITE = - 2,
      EV_ADD = 0x0001, EV_DELETE = 0x0002, EV_EOF = 0x8000,
      KPOLLIN = 0x001, KPOLLOUT = 0x004, KPOLLHUP = 0x020,
      IOEVENT_READ = 0x001, IOEVENT_WRITE = 0x004,
      EINTR = 4, EAGAIN = 11, ETIME = 62, ENOMEM = 12,
      sizeof_event = (\<lambda>b. case b of IOEVENT_USE_EPOLL \<Rightarrow> 12
                                    | IOEVENT_USE_KQUEUE \<Rightarrow> 32
                                    | IOEVENT_USE_PORT \<Rightarrow> 24)\<rparr>"

section \<open>Decoding a kqueue event\<close>

text \<open>
  \<^verbatim>\<open>int kqueue_ev_convert(int16_t event, uint16_t flags)\<close>: the filter selects the
  base value, then the \<^verbatim>\<open>EV_EOF\<close> test adds \<^verbatim>\<open>KPOLLHUP\<close>.
\<close>

definition kqueue_ev_convert :: "platform \<Rightarrow> c_short \<Rightarrow> c_ushort \<Rightarrow> c_int" where
  "kqueue_ev_convert K event flags =
     (let r = (if event = EVFILT_READ K then KPOLLIN K
               else if event = EVFILT_WRITE K then KPOLLOUT K
               else 0)
      in if flags AND EV_EOF K \<noteq> 0 then r OR KPOLLHUP K else r)"

section \<open>The operating system as seen from the module\<close>

text \<open>
  \<^verbatim>\<open>struct epoll_event\<close> after \<^verbatim>\<open>memset\<close> and the two assignments, and
  \<^verbatim>\<open>struct kevent\<close> as \<^verbatim>\<open>EV_SET\<close> fills it.
\<close>

record epoll_event =
  ev_events :: c_uint
  ev_data_ptr :: ptr

record kevent_t =
  kev_ident :: c_int
  kev_filter :: c_short
  kev_flags :: c_ushort
  kev_fflags :: c_uint
  kev_data :: int
  kev_udata :: ptr

text \<open>
  \<^verbatim>\<open>EV_SET(&kev, ident, filter, flags, fflags, data, udata)\<close>.  The filter and the flags
  arrive as \<^verbatim>\<open>int\<close> expressions and are stored in 16-bit fields.
\<close>

definition EV_SET :: "c_int \<Rightarrow> c_short \<Rightarrow> c_int \<Rightarrow> c_uint \<Rightarrow> int \<Rightarrow> ptr \<Rightarrow> kevent_t" where
  "EV_SET a b c d e f =
     \<lparr>kev_ident = a, kev_filter = b, kev_flags = ucast c, kev_fflags = d,
      kev_data = e, kev_udata = f\<rparr>"

text \<open>
  The \<^verbatim>\<open>timeout\<close> field of the poller: an \<^verbatim>\<open>int\<close> of milliseconds under epoll, a
  \<^verbatim>\<open>struct timespec\<close> (seconds, nanoseconds) under kqueue and event ports.  Each
  build stores and passes on its own form only.
\<close>

datatype timeout_t = Timeout_ms c_int | Timespec int int

datatype epoll_op = EPOLL_CTL_ADD | EPOLL_CTL_MOD | EPOLL_CTL_DEL

text \<open>
  Every library and system call the module makes, with its arguments in the order of the
  C prototype.  \<open>Sys_kevent fd changes eventlist nevents timeout\<close> stands for
  \<^verbatim>\<open>kevent(fd, changes, length changes, eventlist, nevents, timeout)\<close>: the change
  list is the first \<^verbatim>\<open>n\<close> filled elements of the local array, and a \<^verbatim>\<open>NULL\<close>
  timeout is \<open>None\<close>.  \<open>Sys_port_associate\<close> and \<open>Sys_port_dissociate\<close> are always
  called with the source \<^verbatim>\<open>PORT_SOURCE_FD\<close>.  \<open>Sys_port_getn port list max nget
  timeout\<close> carries the value that \<^verbatim>\<open>*nget\<close> has on entry.
\<close>

datatype syscall =
    Sys_epoll_create c_int
  | Sys_kqueue
  | Sys_port_create
  | Sys_malloc c_int
  | Sys_free ptr
  | Sys_close c_int
  | Sys_epoll_ctl c_int epoll_op c_int "epoll_event option"
  | Sys_epoll_wait c_int ptr c_int timeout_t
  | Sys_kevent c_int "kevent_t list" ptr c_int "timeout_t option"
  | Sys_port_associate c_int c_int c_int ptr
  | Sys_port_dissociate c_int c_int
  | Sys_port_getn c_int ptr c_int c_uint timeout_t

text \<open>
  What a call gives back: its \<^verbatim>\<open>int\<close> result, the pointer \<^verbatim>\<open>malloc\<close> returns, the
  value it stores in \<^verbatim>\<open>errno\<close> (if it stores one), and the value of \<^verbatim>\<open>*nget\<close> when
  \<^verbatim>\<open>port_getn\<close> returns.  The results are not decided by the module, so the
  operating system is a parameter: a function from the calls made so far and the
  current call to its reply.
\<close>

record reply =
  rv :: c_int
  rptr :: ptr
  rerrno :: "c_int option"
  rnget :: c_uint

type_synonym os = "syscall list \<Rightarrow> syscall \<Rightarrow> reply"

text \<open>The part of the process state the module touches: \<^verbatim>\<open>errno\<close> and the calls made.\<close>

record world =
  errno :: c_int
  trace :: "syscall list"

definition sys :: "os \<Rightarrow> syscall \<Rightarrow> world \<Rightarrow> reply \<times> world" where
  "sys os c w =
     (let r = os (trace w) c
      in (r, \<lparr>errno = (case rerrno r of None \<Rightarrow> errno w | Some e \<Rightarrow> e),
              trace = trace w @ [c]\<rparr>))"

section \<open>The poller\<close>

text \<open>
  \<^verbatim>\<open>IOEventPoller\<close>, with the fields \<^verbatim>\<open>ioevent.c\<close> reads and writes.  (The field
  \<^verbatim>\<open>size\<close> is \<open>size_p\<close> here.)
\<close>

record IOEventPoller =
  size_p :: c_int
  extra_events :: c_int
  poll_fd :: c_int
  timeout :: timeout_t
  events :: ptr

text \<open>
  \<^verbatim>\<open>ioevent_init\<close>.  The byte count is \<^verbatim>\<open>sizeof(...) * size\<close> stored in an
  \<^verbatim>\<open>int\<close>, that is, the product modulo \<open>2 ^ 32\<close>; \<^verbatim>\<open>timeout / 1000\<close> and
  \<^verbatim>\<open>timeout % 1000\<close> truncate towards zero.  The only test is the one on
  \<^verbatim>\<open>ioevent->events\<close> at the end.
\<close>

definition ioevent_init ::
  "platform \<Rightarrow> backend \<Rightarrow> os \<Rightarrow> IOEventPoller \<Rightarrow> c_int \<Rightarrow> c_int \<Rightarrow> c_int \<Rightarrow> world
     \<Rightarrow> c_int \<times> IOEventPoller \<times> world" where
  "ioevent_init K B os ioevent0 sz tmo extra w0 =
     (let ioevent = ioevent0\<lparr>size_p := sz, extra_events := extra\<rparr>;
          (ioevent, w) =
            (case B of
               IOEVENT_USE_EPOLL \<Rightarrow>
                 (let ioevent = ioevent\<lparr>timeout := Timeout_ms tmo\<rparr>;
                      (r, w) = sys os (Sys_epoll_create (size_p ioevent)) w0;
                      ioevent = ioevent\<lparr>poll_fd := rv r\<rparr>;
                      bytes = of_nat (sizeof_event K B) * sz;
                      (r, w) = sys os (Sys_malloc bytes) w
                  in (ioevent\<lparr>events := rptr r\<rparr>, w))
             | IOEVENT_USE_KQUEUE \<Rightarrow>
                 (let ioevent = ioevent\<lparr>timeout :=
                        Timespec (sint tmo sdiv 1000) (1000000 * (sint tmo smod 1000))\<rparr>;
                      (r, w) = sys os Sys_kqueue w0;
                      ioevent = ioevent\<lparr>poll_fd := rv r\<rparr>;
                      bytes = of_nat (sizeof_event K B) * sz;
                      (r, w) = sys os (Sys_malloc bytes) w
                  in (ioevent\<lparr>events := rptr r\<rparr>, w))
             | IOEVENT_USE_PORT \<Rightarrow>
                 (let ioevent = ioevent\<lparr>timeout :=
                        Timespec (sint tmo sdiv 1000) (1000000 * (sint tmo smod 1000))\<rparr>;
                      (r, w) = sys os Sys_port_create w0;
                      ioevent = ioevent\<lparr>poll_fd := rv r\<rparr>;
                      bytes = of_nat (sizeof_event K B) * sz;
                      (r, w) = sys os (Sys_malloc bytes) w
                  in (ioevent\<lparr>events := rptr r\<rparr>, w)))
      in if events ioevent = NULL
         then (if errno w \<noteq> 0 then errno w else ENOMEM K, ioevent, w)
         else (0, ioevent, w))"

text \<open>\<^verbatim>\<open>ioevent_destroy\<close>: two independent guarded releases.\<close>

definition ioevent_destroy :: "os \<Rightarrow> IOEventPoller \<Rightarrow> world \<Rightarrow> IOEventPoller \<times> world" where
  "ioevent_destroy os ioevent0 w0 =
     (let (ioevent, w) =
            (if events ioevent0 \<noteq> NULL
             then (ioevent0\<lparr>events := NULL\<rparr>, snd (sys os (Sys_free (events ioevent0)) w0))
             else (ioevent0, w0))
      in if 0 \<le>s poll_fd ioevent
         then (ioevent\<lparr>poll_fd := - 1\<rparr>, snd (sys os (Sys_close (poll_fd ioevent)) w))
         else (ioevent, w))"

text \<open>
  \<^verbatim>\<open>ioevent_attach\<close>.  Under kqueue the local array \<^verbatim>\<open>ev[2]\<close> is filled from index
  \<open>0\<close> by \<^verbatim>\<open>ev[n++]\<close>; the list below is \<^verbatim>\<open>ev[0..n-1]\<close>.
\<close>

definition ioevent_attach ::
  "platform \<Rightarrow> backend \<Rightarrow> os \<Rightarrow> IOEventPoller \<Rightarrow> c_int \<Rightarrow> c_int \<Rightarrow> ptr \<Rightarrow> world
     \<Rightarrow> c_int \<times> world" where
  "ioevent_attach K B os ioevent fd e data w =
     (case B of
        IOEVENT_USE_EPOLL \<Rightarrow>
          (let ev = \<lparr>ev_events = e OR extra_events ioevent, ev_data_ptr = data\<rparr>;
               (r, w) = sys os (Sys_epoll_ctl (poll_fd ioevent) EPOLL_CTL_ADD fd (Some ev)) w
           in (rv r, w))
      | IOEVENT_USE_KQUEUE \<Rightarrow>
          (let ev = [];
               ev = (if e AND IOEVENT_READ K \<noteq> 0
                     then ev @ [EV_SET fd (EVFILT_READ K)
                                  (ucast (EV_ADD K) OR extra_events ioevent) 0 0 data]
                     else ev);
               ev = (if e AND IOEVENT_WRITE K \<noteq> 0
                     then ev @ [EV_SET fd (EVFILT_WRITE K)
                                  (ucast (EV_ADD K) OR extra_events ioevent) 0 0 data]
                     else ev);
               (r, w) = sys os (Sys_kevent (poll_fd ioevent) ev NULL 0 None) w
           in (rv r, w))
      | IOEVENT_USE_PORT \<Rightarrow>
          (let (r, w) = sys os (Sys_port_associate (poll_fd ioevent) fd e data) w
           in (rv r, w)))"

text \<open>\<^verbatim>\<open>ioevent_modify\<close>: under kqueue each of the two tests has an \<^verbatim>\<open>else\<close> branch.\<close>

definition ioevent_modify ::
  "platform \<Rightarrow> backend \<Rightarrow> os \<Rightarrow> IOEventPoller \<Rightarrow> c_int \<Rightarrow> c_int \<Rightarrow> ptr \<Rightarrow> world
     \<Rightarrow> c_int \<times> world" where
  "ioevent_modify K B os ioevent fd e data w =
     (case B of
        IOEVENT_USE_EPOLL \<Rightarrow>
          (let ev = \<lparr>ev_events = e OR extra_events ioevent, ev_data_ptr = data\<rparr>;
               (r, w) = sys os (Sys_epoll_ctl (poll_fd ioevent) EPOLL_CTL_MOD fd (Some ev)) w
           in (rv r, w))
      | IOEVENT_USE_KQUEUE \<Rightarrow>
          (let ev = [];
               ev = (if e AND IOEVENT_READ K \<noteq> 0
                     then ev @ [EV_SET fd (EVFILT_READ K)
                                  (ucast (EV_ADD K) OR extra_events ioevent) 0 0 data]
                     else ev @ [EV_SET fd (EVFILT_READ K) (ucast (EV_DELETE K)) 0 0 data]);
               ev = (if e AND IOEVENT_WRITE K \<noteq> 0
                     then ev @ [EV_SET fd (EVFILT_WRITE K)
                                  (ucast (EV_ADD K) OR extra_events ioevent) 0 0 data]
                     else ev @ [EV_SET fd (EVFILT_WRITE K) (ucast (EV_DELETE K)) 0 0 data]);
               (r, w) = sys os (Sys_kevent (poll_fd ioevent) ev NULL 0 None) w
           in (rv r, w))
      | IOEVENT_USE_PORT \<Rightarrow>
          (let (r, w) = sys os (Sys_port_associate (poll_fd ioevent) fd e data) w
           in (rv r, w)))"

text \<open>\<^verbatim>\<open>ioevent_detach\<close>: under kqueue (the \<^verbatim>\<open>#else\<close> branch) no call is made.\<close>

definition ioevent_detach ::
  "backend \<Rightarrow> os \<Rightarrow> IOEventPoller \<Rightarrow> c_int \<Rightarrow> world \<Rightarrow> c_int \<times> world" where
  "ioevent_detach B os ioevent fd w =
     (case B of
        IOEVENT_USE_EPOLL \<Rightarrow>
          (let (r, w) = sys os (Sys_epoll_ctl (poll_fd ioevent) EPOLL_CTL_DEL fd None) w
           in (rv r, w))
      | IOEVENT_USE_PORT \<Rightarrow>
          (let (r, w) = sys os (Sys_port_dissociate (poll_fd ioevent) fd) w
           in (rv r, w))
      | IOEVENT_USE_KQUEUE \<Rightarrow> (0, w))"

text \<open>
  \<^verbatim>\<open>ioevent_poll\<close>.  Under epoll and kqueue the result of the system call is returned as
  it is.  Under event ports \<^verbatim>\<open>nget\<close> starts at \<open>1\<close>, and the \<^verbatim>\<open>switch\<close> on
  \<^verbatim>\<open>errno\<close> decides the result when \<^verbatim>\<open>port_getn\<close> does not return \<open>0\<close>;
  \<^verbatim>\<open>(int)nget\<close> keeps the 32 bits.  The poller is only read.
\<close>

definition ioevent_poll ::
  "platform \<Rightarrow> backend \<Rightarrow> os \<Rightarrow> IOEventPoller \<Rightarrow> world \<Rightarrow> c_int \<times> world" where
  "ioevent_poll K B os ioevent w =
     (case B of
        IOEVENT_USE_EPOLL \<Rightarrow>
          (let (r, w) = sys os (Sys_epoll_wait (poll_fd ioevent) (events ioevent)
                                  (size_p ioevent) (timeout ioevent)) w
           in (rv r, w))
      | IOEVENT_USE_KQUEUE \<Rightarrow>
          (let (r, w) = sys os (Sys_kevent (poll_fd ioevent) [] (events ioevent)
                                  (size_p ioevent) (Some (timeout ioevent))) w
           in (rv r, w))
      | IOEVENT_USE_PORT \<Rightarrow>
          (let nget = 1;
               (r, w) = sys os (Sys_port_getn (poll_fd ioevent) (events ioevent)
                                  (size_p ioevent) nget (timeout ioevent)) w;
               retval = rv r;
               nget = rnget r
           in if retval = 0 then (nget, w)
              else if errno w = EINTR K \<or> errno w = EAGAIN K \<or> errno w = ETIME K
                   then (if 0 < nget then (nget, w) else (0, w))
                   else (- 1, w)))"

section \<open>Auxiliary notions for the statements\<close>

text \<open>The handle-creating call of each build, as \<^verbatim>\<open>ioevent_init\<close> issues it.\<close>

definition create_call :: "backend \<Rightarrow> c_int \<Rightarrow> syscall" where
  "create_call B sz =
     (case B of
        IOEVENT_USE_EPOLL \<Rightarrow> Sys_epoll_create sz
      | IOEVENT_USE_KQUEUE \<Rightarrow> Sys_kqueue
      | IOEVENT_USE_PORT \<Rightarrow> Sys_port_create)"

text \<open>The value \<^verbatim>\<open>ioevent_init\<close> stores in the \<^verbatim>\<open>timeout\<close> field.\<close>

definition init_timeout :: "backend \<Rightarrow> c_int \<Rightarrow> timeout_t" where
  "init_timeout B tmo =
     (case B of
        IOEVENT_USE_EPOLL \<Rightarrow> Timeout_ms tmo
      | _ \<Rightarrow> Timespec (sint tmo sdiv 1000) (1000000 * (sint tmo smod 1000)))"

text \<open>
  The result buffer and its capacity, as passed to a waiting call (the arguments
  \<^verbatim>\<open>events, maxevents\<close> of \<^verbatim>\<open>epoll_wait\<close>, \<^verbatim>\<open>eventlist, nevents\<close> of
  \<^verbatim>\<open>kevent\<close>, \<^verbatim>\<open>list, max\<close> of \<^verbatim>\<open>port_getn\<close>).
\<close>

fun wait_buffer :: "syscall \<Rightarrow> (ptr \<times> c_int) option" where
  "wait_buffer (Sys_epoll_wait fd buf mx t) = Some (buf, mx)"
| "wait_buffer (Sys_kevent fd ch buf mx t) = Some (buf, mx)"
| "wait_buffer (Sys_port_getn fd buf mx n t) = Some (buf, mx)"
| "wait_buffer c = None"

text \<open>
  The contract of the three waiting calls that the module relies on: given a positive
  capacity, \<^verbatim>\<open>epoll_wait\<close> and \<^verbatim>\<open>kevent\<close> return at most that many events, and
  \<^verbatim>\<open>port_getn\<close> leaves in \<^verbatim>\<open>*nget\<close> either a count within the capacity or the value
  it found there.
\<close>

definition kernel_respects_max :: "os \<Rightarrow> bool" where
  "kernel_respects_max os \<longleftrightarrow>
     (\<forall>h fd buf mx t. 0 <s mx \<longrightarrow> rv (os h (Sys_epoll_wait fd buf mx t)) \<le>s mx) \<and>
     (\<forall>h fd ch buf mx t. 0 <s mx \<longrightarrow> rv (os h (Sys_kevent fd ch buf mx t)) \<le>s mx) \<and>
     (\<forall>h fd buf mx n t. 0 <s mx \<longrightarrow>
        rnget (os h (Sys_port_getn fd buf mx n t)) \<le> mx
        \<or> rnget (os h (Sys_port_getn fd buf mx n t)) = n)"

subsection \<open>Sample inputs\<close>

text \<open>An operating system that gives the same reply to every call.\<close>

definition os_reply :: "reply \<Rightarrow> os" where
  "os_reply r = (\<lambda>h c. r)"

text \<open>Handle creation succeeds with descriptor 3; \<^verbatim>\<open>malloc\<close> fails with \<^verbatim>\<open>ENOMEM\<close>.\<close>

definition os_malloc_fails :: os where
  "os_malloc_fails =
     (\<lambda>h c. case c of
        Sys_malloc b \<Rightarrow> \<lparr>rv = 0, rptr = NULL, rerrno = Some 12, rnget = 0\<rparr>
      | _ \<Rightarrow> \<lparr>rv = 3, rptr = NULL, rerrno = None, rnget = 0\<rparr>)"

text \<open>
  Handle creation fails (result \<open>-1\<close>, \<^verbatim>\<open>errno\<close> 24, too many open files);
  \<^verbatim>\<open>malloc\<close> succeeds.
\<close>

definition os_create_fails :: os where
  "os_create_fails =
     (\<lambda>h c. case c of
        Sys_malloc b \<Rightarrow> \<lparr>rv = 0, rptr = 4096, rerrno = None, rnget = 0\<rparr>
      | _ \<Rightarrow> \<lparr>rv = - 1, rptr = NULL, rerrno = Some 24, rnget = 0\<rparr>)"

text \<open>Two descriptors are ready at every wait whose capacity has room for them.\<close>

definition os_two_ready :: os where
  "os_two_ready =
     (\<lambda>h c. case c of
        Sys_epoll_wait fd buf mx t \<Rightarrow>
          \<lparr>rv = (if 2 \<le>s mx then 2 else - 1), rptr = NULL, rerrno = None, rnget = 0\<rparr>
      | Sys_kevent fd ch buf mx t \<Rightarrow>
          \<lparr>rv = (if 2 \<le>s mx then 2 else - 1), rptr = NULL, rerrno = None, rnget = 0\<rparr>
      | Sys_port_getn fd buf mx n t \<Rightarrow>
          \<lparr>rv = 0, rptr = NULL, rerrno = None, rnget = (if 2 \<le> mx then 2 else n)\<rparr>
      | _ \<Rightarrow> \<lparr>rv = 0, rptr = NULL, rerrno = None, rnget = 0\<rparr>)"

text \<open>The reply of a call that succeeds with result 0.\<close>

definition reply_ok :: reply where
  "reply_ok = \<lparr>rv = 0, rptr = NULL, rerrno = None, rnget = 0\<rparr>"

text \<open>A poller before \<^verbatim>\<open>ioevent_init\<close> (zeroed memory) and one after a successful one.\<close>

definition blank_poller :: IOEventPoller where
  "blank_poller =
     \<lparr>size_p = 0, extra_events = 0, poll_fd = 0, timeout = Timeout_ms 0, events = NULL\<rparr>"

definition sample_poller :: IOEventPoller where
  "sample_poller =
     \<lparr>size_p = 8, extra_events = 0x20, poll_fd = 3, timeout = Timeout_ms 1000,
      events = 4096\<rparr>"

definition sample_world :: world where
  "sample_world = \<lparr>errno = 0, trace = []\<rparr>"

text \<open>The reply of a call that fails with \<^verbatim>\<open>errno\<close> 9 (bad file descriptor).\<close>

definition reply_ebadf :: reply where
  "reply_ebadf = \<lparr>rv = - 1, rptr = NULL, rerrno = Some 9, rnget = 0\<rparr>"

text \<open>
  The poller that \<^verbatim>\<open>ioevent_init\<close> leaves on the kqueue build when \<^verbatim>\<open>kqueue\<close> fails and
  \<^verbatim>\<open>malloc\<close> succeeds (capacity 8, timeout 1000 ms).
\<close>

definition unopened_poller :: IOEventPoller where
  "unopened_poller =
     \<lparr>size_p = 8, extra_events = 0, poll_fd = - 1, timeout = Timespec 1 0, events = 4096\<rparr>"

section \<open>Auxiliary lemmas\<close>

lemma ucast_or_down:
  "(ucast ((ucast (a :: 16 word) :: 32 word) OR b) :: 16 word) = a OR ucast b"
  by (rule bit_word_eqI) (auto simp: bit_simps)

lemma ucast_up_down: "(ucast (ucast (a :: 16 word) :: 32 word) :: 16 word) = a"
  by (rule bit_word_eqI) (auto simp: bit_simps)

lemma EV_SET_sel:
  "kev_ident (EV_SET a b c d e f) = a"
  "kev_filter (EV_SET a b c d e f) = b"
  "kev_flags (EV_SET a b c d e f) = ucast c"
  "kev_udata (EV_SET a b c d e f) = f"
  by (simp_all add: EV_SET_def)

lemma uint_small_sint:
  assumes "uint (n :: 32 word) < 2 ^ 31"
  shows "sint n = uint n"
proof -
  have "- (2 ^ 31) \<le> (0 :: int)" by simp
  then have "- (2 ^ 31) \<le> uint n" by (rule order_trans) simp
  then have "signed_take_bit 31 (uint n) = uint n"
    using assms by (rule signed_take_bit_int_eq_self)
  then show ?thesis by (simp add: sint_uint)
qed

lemma sint_cases:
  "sint (m :: 32 word) = (if uint m < 2 ^ 31 then uint m else uint m - 2 ^ 32)"
proof (cases "uint m < 2 ^ 31")
  case True
  then show ?thesis by (simp add: uint_small_sint)
next
  case False
  have lt: "uint m < 2 ^ 32" using uint_lt2p [of m] by simp
  have "sint m = signed_take_bit 31 (uint m - 2 ^ 32)"
    by (simp add: sint_uint signed_take_bit_eq_iff_take_bit_eq take_bit_eq_mod)
  also have "\<dots> = uint m - 2 ^ 32"
    using False lt by (simp add: signed_take_bit_int_eq_self)
  finally show ?thesis using False by simp
qed

lemma sle_of_ule:
  assumes "0 <s (m :: 32 word)" and "n \<le> m"
  shows "n \<le>s m \<and> 0 \<le>s n"
proof -
  have lt: "uint m < 2 ^ 32" using uint_lt2p [of m] by simp
  from assms(1) have m: "uint m < 2 ^ 31"
    using lt by (simp add: word_sless_alt sint_cases split: if_splits)
  from assms(2) have le: "uint n \<le> uint m" by (simp add: word_le_def)
  with m have n: "uint n < 2 ^ 31" by simp
  show ?thesis using m n le
    by (simp add: word_sle_eq uint_small_sint)
qed

text \<open>\<^verbatim>\<open>ioevent_init\<close> in one piece: the two calls, the poller and the result.\<close>

lemma ioevent_init_unfold:
  "ioevent_init K B os p0 sz tmo extra w0 =
     (let c = create_call B sz;
          r1 = os (trace w0) c;
          b = of_nat (sizeof_event K B) * sz;
          r2 = os (trace w0 @ [c]) (Sys_malloc b);
          en = (case rerrno r2 of Some e \<Rightarrow> e
                | None \<Rightarrow> (case rerrno r1 of Some e \<Rightarrow> e | None \<Rightarrow> errno w0));
          p = p0\<lparr>size_p := sz, extra_events := extra, timeout := init_timeout B tmo,
                poll_fd := rv r1, events := rptr r2\<rparr>;
          w = \<lparr>errno = en, trace = trace w0 @ [c, Sys_malloc b]\<rparr>
      in (if rptr r2 = NULL then (if en \<noteq> 0 then en else ENOMEM K) else 0, p, w))"
  by (cases B)
     (simp_all add: ioevent_init_def sys_def Let_def create_call_def init_timeout_def
        split: option.splits)

lemma init_malloc_fails_eval:
  "ioevent_init sample_platform IOEVENT_USE_EPOLL os_malloc_fails blank_poller 8 1000 0
       sample_world
     = (12,
        \<lparr>size_p = 8, extra_events = 0, poll_fd = 3, timeout = Timeout_ms 1000,
         events = NULL\<rparr>,
        \<lparr>errno = 12, trace = [Sys_epoll_create 8, Sys_malloc 96]\<rparr>)"
  by (simp add: ioevent_init_def sys_def Let_def sample_platform_def os_malloc_fails_def
        blank_poller_def sample_world_def)

lemma os_reply_apply: "os_reply r h c = r"
  by (simp add: os_reply_def)

lemma sample_platform_sel:
  "EVFILT_READ sample_platform = - 1"
  "EVFILT_WRITE sample_platform = - 2"
  "EV_ADD sample_platform = 1"
  "EV_DELETE sample_platform = 2"
  "EV_EOF sample_platform = 0x8000"
  "KPOLLIN sample_platform = 1"
  "KPOLLOUT sample_platform = 4"
  "KPOLLHUP sample_platform = 0x20"
  "IOEVENT_READ sample_platform = 1"
  "IOEVENT_WRITE sample_platform = 4"
  "EINTR sample_platform = 4"
  "EAGAIN sample_platform = 11"
  "ETIME sample_platform = 62"
  "ENOMEM sample_platform = 12"
  by (simp_all add: sample_platform_def)

lemma sample_poller_sel:
  "size_p sample_poller = 8"
  "extra_events sample_poller = 0x20"
  "poll_fd sample_poller = 3"
  "timeout sample_poller = Timeout_ms 1000"
  "events sample_poller = 4096"
  by (simp_all add: sample_poller_def)

lemma sample_world_sel:
  "errno sample_world = 0"
  "trace sample_world = []"
  by (simp_all add: sample_world_def)

lemma os_two_ready_respects_max: "kernel_respects_max os_two_ready"
  by (simp add: kernel_respects_max_def os_two_ready_def word_sle_eq word_sless_alt)

lemma init_kqueue_unopened:
  "ioevent_init sample_platform IOEVENT_USE_KQUEUE os_create_fails blank_poller 8 1000 0
       sample_world
     = (0, unopened_poller, \<lparr>errno = 24, trace = [Sys_kqueue, Sys_malloc 256]\<rparr>)"
  by (simp add: ioevent_init_def sys_def Let_def sample_platform_def os_create_fails_def
        blank_poller_def sample_world_def unopened_poller_def)

section \<open>The claims\<close>

subsection \<open>Initialisation\<close>

text \<open>
  C1, as stated, fails.  On the epoll build, let \<^verbatim>\<open>epoll_create\<close> return the
  descriptor 3 and \<^verbatim>\<open>malloc\<close> return \<^verbatim>\<open>NULL\<close> with \<^verbatim>\<open>errno = ENOMEM\<close>.  Then
  \<^verbatim>\<open>ioevent_init\<close> returns 12 after exactly two calls, \<^verbatim>\<open>epoll_create(8)\<close> and
  \<^verbatim>\<open>malloc(96)\<close>: the descriptor 3 is still stored in \<^verbatim>\<open>poll_fd\<close> and no
  \<^verbatim>\<open>close(3)\<close> has been issued.
\<close>

theorem ioevent_init_alloc_failure_no_close:
  "events (fst (snd (ioevent_init sample_platform IOEVENT_USE_EPOLL os_malloc_fails
       blank_poller 8 1000 0 sample_world))) = NULL
   \<and> poll_fd (fst (snd (ioevent_init sample_platform IOEVENT_USE_EPOLL os_malloc_fails
       blank_poller 8 1000 0 sample_world))) = 3
   \<and> fst (ioevent_init sample_platform IOEVENT_USE_EPOLL os_malloc_fails
       blank_poller 8 1000 0 sample_world) = 12
   \<and> trace (snd (snd (ioevent_init sample_platform IOEVENT_USE_EPOLL os_malloc_fails
       blank_poller 8 1000 0 sample_world))) = [Sys_epoll_create 8, Sys_malloc 96]
   \<and> Sys_close 3 \<notin> set (trace (snd (snd (ioevent_init sample_platform IOEVENT_USE_EPOLL
       os_malloc_fails blank_poller 8 1000 0 sample_world))))"
  by (simp add: init_malloc_fails_eval)

text \<open>
  C1, amended.  Whenever \<^verbatim>\<open>ioevent_init\<close> ends with a created handle
  (\<^verbatim>\<open>poll_fd >= 0\<close>) and a failed buffer allocation (\<^verbatim>\<open>events == NULL\<close>), on any
  build and for any behaviour of the operating system: it returns \<^verbatim>\<open>errno\<close> if that
  is non-zero and \<^verbatim>\<open>ENOMEM\<close> otherwise, hence a non-zero error; the only calls it
  has made are the handle creation and the \<^verbatim>\<open>malloc\<close>, so the handle is not closed;
  the handle is the one stored in \<^verbatim>\<open>poll_fd\<close>; and a following
  \<^verbatim>\<open>ioevent_destroy\<close> on that poller issues exactly \<^verbatim>\<open>close(poll_fd)\<close> and sets
  \<^verbatim>\<open>poll_fd\<close> to \<open>-1\<close>.
\<close>

theorem ioevent_init_alloc_failure_keeps_handle:
  assumes "ioevent_init K B os p0 sz tmo extra w0 = (res, p, w)"
    and "events p = NULL" and "0 \<le>s poll_fd p" and "ENOMEM K \<noteq> 0"
  shows "res = (if errno w \<noteq> 0 then errno w else ENOMEM K) \<and> res \<noteq> 0
       \<and> (\<exists>b. trace w = trace w0 @ [create_call B sz, Sys_malloc b])
       \<and> poll_fd p = rv (os (trace w0) (create_call B sz))
       \<and> ioevent_destroy os' p w =
           (p\<lparr>poll_fd := - 1\<rparr>,
            \<lparr>errno = (case rerrno (os' (trace w) (Sys_close (poll_fd p))) of
                        None \<Rightarrow> errno w | Some e \<Rightarrow> e),
             trace = trace w @ [Sys_close (poll_fd p)]\<rparr>)"
proof -
  note u = assms(1) [unfolded ioevent_init_unfold Let_def, simplified]
  from u have p: "poll_fd p = rv (os (trace w0) (create_call B sz))" by auto
  from u assms(2) have r: "res = (if errno w \<noteq> 0 then errno w else ENOMEM K)"
    by (auto split: if_splits)
  from u have t: "\<exists>b. trace w = trace w0 @ [create_call B sz, Sys_malloc b]" by auto
  have d: "ioevent_destroy os' p w =
           (p\<lparr>poll_fd := - 1\<rparr>,
            \<lparr>errno = (case rerrno (os' (trace w) (Sys_close (poll_fd p))) of
                        None \<Rightarrow> errno w | Some e \<Rightarrow> e),
             trace = trace w @ [Sys_close (poll_fd p)]\<rparr>)"
    using assms(2,3) by (simp add: ioevent_destroy_def sys_def Let_def)
  show ?thesis using p r t d assms(4) by simp
qed

theorem ioevent_init_alloc_failure_keeps_handle_witness:
  "ioevent_init sample_platform IOEVENT_USE_EPOLL os_malloc_fails blank_poller 8 1000 0
       sample_world
     = (12,
        \<lparr>size_p = 8, extra_events = 0, poll_fd = 3, timeout = Timeout_ms 1000,
         events = NULL\<rparr>,
        \<lparr>errno = 12, trace = [Sys_epoll_create 8, Sys_malloc 96]\<rparr>)
   \<and> ENOMEM sample_platform \<noteq> 0
   \<and> ioevent_destroy os_malloc_fails
        \<lparr>size_p = 8, extra_events = 0, poll_fd = 3, timeout = Timeout_ms 1000,
         events = NULL\<rparr>
        \<lparr>errno = 12, trace = [Sys_epoll_create 8, Sys_malloc 96]\<rparr>
     = (\<lparr>size_p = 8, extra_events = 0, poll_fd = - 1, timeout = Timeout_ms 1000,
         events = NULL\<rparr>,
        \<lparr>errno = 12, trace = [Sys_epoll_create 8, Sys_malloc 96, Sys_close 3]\<rparr>)"
proof -
  have a: "ENOMEM sample_platform \<noteq> 0" by (simp add: sample_platform_def)
  have b: "events \<lparr>size_p = 8, extra_events = 0, poll_fd = 3, timeout = Timeout_ms 1000,
         events = NULL\<rparr> = NULL" by simp
  have c: "0 \<le>s poll_fd \<lparr>size_p = 8, extra_events = 0, poll_fd = 3, timeout = Timeout_ms 1000,
         events = NULL\<rparr>" by (simp add: word_sle_eq)
  have e: "rerrno (os_malloc_fails h (Sys_close fd)) = None" for h fd
    by (simp add: os_malloc_fails_def)
  note th = ioevent_init_alloc_failure_keeps_handle
              [OF init_malloc_fails_eval b c a, of os_malloc_fails]
  then have "ioevent_destroy os_malloc_fails
        \<lparr>size_p = 8, extra_events = 0, poll_fd = 3, timeout = Timeout_ms 1000,
         events = NULL\<rparr>
        \<lparr>errno = 12, trace = [Sys_epoll_create 8, Sys_malloc 96]\<rparr>
     = (\<lparr>size_p = 8, extra_events = 0, poll_fd = - 1, timeout = Timeout_ms 1000,
         events = NULL\<rparr>,
        \<lparr>errno = 12, trace = [Sys_epoll_create 8, Sys_malloc 96, Sys_close 3]\<rparr>)"
    by (simp add: e create_call_def sample_world_def)
  with a show ?thesis by (simp add: init_malloc_fails_eval)
qed

text \<open>
  C2.  The claim asks for an error whenever handle creation fails.  The code tests only
  the buffer pointer: on the epoll build, when \<^verbatim>\<open>epoll_create\<close> fails (result \<open>-1\<close>,
  \<^verbatim>\<open>errno = 24\<close>) and \<^verbatim>\<open>malloc\<close> succeeds, \<^verbatim>\<open>ioevent_init\<close> returns 0 and
  leaves \<^verbatim>\<open>poll_fd = -1\<close> in the poller.
\<close>

theorem ioevent_init_create_failure_returns_zero:
  "ioevent_init sample_platform IOEVENT_USE_EPOLL os_create_fails blank_poller 8 1000 0
       sample_world
     = (0,
        \<lparr>size_p = 8, extra_events = 0, poll_fd = - 1, timeout = Timeout_ms 1000,
         events = 4096\<rparr>,
        \<lparr>errno = 24, trace = [Sys_epoll_create 8, Sys_malloc 96]\<rparr>)"
  by (simp add: ioevent_init_def sys_def Let_def sample_platform_def os_create_fails_def
        blank_poller_def sample_world_def)

subsection \<open>Teardown\<close>

text \<open>
  C9.  For every poller, \<^verbatim>\<open>ioevent_destroy\<close> frees the buffer if there is one and
  closes the handle if it is non-negative, in this order and with no other call; it
  leaves \<^verbatim>\<open>events = NULL\<close> and a negative \<^verbatim>\<open>poll_fd\<close> (\<open>-1\<close> when it closed the
  handle).  A second \<^verbatim>\<open>ioevent_destroy\<close> on the result changes neither the poller nor
  the process state: it makes no call.
\<close>

theorem ioevent_destroy_idempotent:
  "(let (p1, w1) = ioevent_destroy os p w;
        (p2, w2) = ioevent_destroy os' p1 w1
    in events p1 = NULL \<and> poll_fd p1 <s 0
     \<and> poll_fd p1 = (if 0 \<le>s poll_fd p then - 1 else poll_fd p)
     \<and> trace w1 = trace w
          @ (if events p \<noteq> NULL then [Sys_free (events p)] else [])
          @ (if 0 \<le>s poll_fd p then [Sys_close (poll_fd p)] else [])
     \<and> p2 = p1 \<and> w2 = w1)"
  apply (simp add: ioevent_destroy_def Let_def sys_def split_beta)
  apply (auto simp: word_sle_eq word_sless_alt)
  done

theorem ioevent_destroy_idempotent_witness:
  "events (fst (ioevent_destroy os_two_ready sample_poller sample_world)) = NULL
   \<and> poll_fd (fst (ioevent_destroy os_two_ready sample_poller sample_world)) = - 1
   \<and> trace (snd (ioevent_destroy os_two_ready sample_poller sample_world))
       = [Sys_free 4096, Sys_close 3]
   \<and> ioevent_destroy os_two_ready
        (fst (ioevent_destroy os_two_ready sample_poller sample_world))
        (snd (ioevent_destroy os_two_ready sample_poller sample_world))
       = ioevent_destroy os_two_ready sample_poller sample_world"
proof -
  have s: "poll_fd sample_poller = 3" "events sample_poller = 4096" "trace sample_world = []"
    by (simp_all add: sample_poller_def sample_world_def)
  show ?thesis
    using ioevent_destroy_idempotent [of os_two_ready sample_poller sample_world os_two_ready]
    by (simp add: split_beta Let_def s word_sle_eq prod_eq_iff)
qed

subsection \<open>Registration\<close>

text \<open>
  C5.  On the kqueue build \<^verbatim>\<open>ioevent_attach\<close> makes one \<^verbatim>\<open>kevent\<close> call, with no
  result buffer and no timeout.  Its change list holds, for \<^verbatim>\<open>EVFILT_READ\<close>, exactly
  one entry if the mask has \<^verbatim>\<open>IOEVENT_READ\<close> and none otherwise, and likewise for
  \<^verbatim>\<open>EVFILT_WRITE\<close> and \<^verbatim>\<open>IOEVENT_WRITE\<close>; there is no other entry, and every
  entry carries the flags \<^verbatim>\<open>EV_ADD | extra_events\<close>, so none is a delete entry.  The
  two filter constants are distinct.
\<close>

theorem ioevent_attach_kqueue_changes:
  assumes "EVFILT_READ K \<noteq> EVFILT_WRITE K"
  shows "\<exists>ch. trace (snd (ioevent_attach K IOEVENT_USE_KQUEUE os p fd e data w))
               = trace w @ [Sys_kevent (poll_fd p) ch NULL 0 None]
     \<and> filter (\<lambda>k. kev_filter k = EVFILT_READ K) ch =
         (if e AND IOEVENT_READ K \<noteq> 0
          then [EV_SET fd (EVFILT_READ K) (ucast (EV_ADD K) OR extra_events p) 0 0 data]
          else [])
     \<and> filter (\<lambda>k. kev_filter k = EVFILT_WRITE K) ch =
         (if e AND IOEVENT_WRITE K \<noteq> 0
          then [EV_SET fd (EVFILT_WRITE K) (ucast (EV_ADD K) OR extra_events p) 0 0 data]
          else [])
     \<and> (\<forall>k \<in> set ch. (kev_filter k = EVFILT_READ K \<or> kev_filter k = EVFILT_WRITE K)
                     \<and> kev_flags k = EV_ADD K OR ucast (extra_events p))
     \<and> length ch = (if e AND IOEVENT_READ K \<noteq> 0 then 1 else 0)
                 + (if e AND IOEVENT_WRITE K \<noteq> 0 then 1 else 0)"
  using assms
  by (simp add: ioevent_attach_def sys_def Let_def EV_SET_sel ucast_or_down)

theorem ioevent_attach_kqueue_changes_witness:
  "EVFILT_READ sample_platform \<noteq> EVFILT_WRITE sample_platform
   \<and> (\<exists>ch. trace (snd (ioevent_attach sample_platform IOEVENT_USE_KQUEUE (os_reply reply_ok)
                        sample_poller 5 1 7 sample_world))
              = [Sys_kevent 3 ch NULL 0 None]
          \<and> filter (\<lambda>k. kev_filter k = - 1) ch = [EV_SET 5 (- 1) 0x21 0 0 7]
          \<and> filter (\<lambda>k. kev_filter k = - 2) ch = []
          \<and> (\<forall>k \<in> set ch. (kev_filter k = - 1 \<or> kev_filter k = - 2)
                          \<and> kev_flags k = 0x21)
          \<and> length ch = 1)"
proof -
  have h: "EVFILT_READ sample_platform \<noteq> EVFILT_WRITE sample_platform"
    by (simp add: sample_platform_sel)
  show ?thesis
    using h ioevent_attach_kqueue_changes [OF h, of "os_reply reply_ok" sample_poller 5 1 7
                 sample_world]
    by (simp add: sample_platform_sel sample_poller_sel sample_world_sel)
qed

text \<open>
  C10, as stated, fails.  On the kqueue build, let \<^verbatim>\<open>ioevent_init\<close> run while
  \<^verbatim>\<open>kqueue\<close> fails and \<^verbatim>\<open>malloc\<close> succeeds: it returns 0 and leaves
  \<^verbatim>\<open>poll_fd = -1\<close>.  On that poller \<^verbatim>\<open>ioevent_attach\<close> with the mask 2, which has
  neither \<^verbatim>\<open>IOEVENT_READ\<close> nor \<^verbatim>\<open>IOEVENT_WRITE\<close>, submits the empty change list
  to the descriptor \<open>-1\<close>; the kernel answers \<open>-1\<close> (bad file descriptor), and
  \<^verbatim>\<open>ioevent_attach\<close> returns \<open>-1\<close>, not success.
\<close>

theorem ioevent_attach_kqueue_empty_mask_error:
  "(2 :: c_int) AND IOEVENT_READ sample_platform = 0
   \<and> (2 :: c_int) AND IOEVENT_WRITE sample_platform = 0
   \<and> ioevent_init sample_platform IOEVENT_USE_KQUEUE os_create_fails blank_poller 8 1000 0
         sample_world
       = (0, unopened_poller, \<lparr>errno = 24, trace = [Sys_kqueue, Sys_malloc 256]\<rparr>)
   \<and> ioevent_attach sample_platform IOEVENT_USE_KQUEUE (os_reply reply_ebadf)
         unopened_poller 5 2 7 sample_world
       = (- 1, \<lparr>errno = 9, trace = [Sys_kevent (- 1) [] NULL 0 None]\<rparr>)"
  by (simp add: init_kqueue_unopened)
     (simp add: ioevent_attach_def sys_def Let_def os_reply_apply reply_ebadf_def
        unopened_poller_def sample_platform_sel sample_world_sel)

text \<open>
  C10, amended.  On the kqueue build, when the mask has neither \<^verbatim>\<open>IOEVENT_READ\<close> nor
  \<^verbatim>\<open>IOEVENT_WRITE\<close>, \<^verbatim>\<open>ioevent_attach\<close> makes exactly one \<^verbatim>\<open>kevent\<close> call, with
  an empty change list, no result buffer and no timeout, and returns the result of that
  call unchanged.
\<close>

theorem ioevent_attach_kqueue_empty_mask:
  assumes "e AND IOEVENT_READ K = 0" and "e AND IOEVENT_WRITE K = 0"
  shows "fst (ioevent_attach K IOEVENT_USE_KQUEUE os p fd e data w)
           = rv (os (trace w) (Sys_kevent (poll_fd p) [] NULL 0 None))
       \<and> trace (snd (ioevent_attach K IOEVENT_USE_KQUEUE os p fd e data w))
           = trace w @ [Sys_kevent (poll_fd p) [] NULL 0 None]"
  using assms by (simp add: ioevent_attach_def sys_def Let_def)

theorem ioevent_attach_kqueue_empty_mask_witness:
  "(2 :: c_int) AND IOEVENT_READ sample_platform = 0
   \<and> (2 :: c_int) AND IOEVENT_WRITE sample_platform = 0
   \<and> fst (ioevent_attach sample_platform IOEVENT_USE_KQUEUE (os_reply reply_ok)
            sample_poller 5 2 7 sample_world) = 0
   \<and> trace (snd (ioevent_attach sample_platform IOEVENT_USE_KQUEUE (os_reply reply_ok)
                  sample_poller 5 2 7 sample_world))
       = [Sys_kevent 3 [] NULL 0 None]
   \<and> fst (ioevent_attach sample_platform IOEVENT_USE_KQUEUE (os_reply reply_ebadf)
            unopened_poller 5 2 7 sample_world) = - 1"
proof -
  have a: "(2 :: c_int) AND IOEVENT_READ sample_platform = 0"
    by (simp add: sample_platform_sel)
  have b: "(2 :: c_int) AND IOEVENT_WRITE sample_platform = 0"
    by (simp add: sample_platform_sel)
  show ?thesis
    using a b
      ioevent_attach_kqueue_empty_mask
        [where e = 2 and K = sample_platform and os = "os_reply reply_ok"
           and w = sample_world and p = sample_poller and fd = 5 and data = 7, OF a b]
      ioevent_attach_kqueue_empty_mask
        [where e = 2 and K = sample_platform and os = "os_reply reply_ebadf"
           and w = sample_world and p = unopened_poller and fd = 5 and data = 7, OF a b]
    by (simp add: sample_poller_sel sample_world_sel os_reply_apply reply_ok_def
          reply_ebadf_def)
qed

text \<open>
  C4.  On the kqueue build \<^verbatim>\<open>ioevent_modify\<close> makes one \<^verbatim>\<open>kevent\<close> call whose
  change list has exactly two entries, one for \<^verbatim>\<open>EVFILT_READ\<close> and one for
  \<^verbatim>\<open>EVFILT_WRITE\<close>, both for the given descriptor and user data; the entry of a
  direction carries \<^verbatim>\<open>EV_ADD | extra_events\<close> if the direction is in the mask and
  \<^verbatim>\<open>EV_DELETE\<close> if it is not.  On the epoll build it makes one
  \<^verbatim>\<open>epoll_ctl(EPOLL_CTL_MOD)\<close> call carrying the new mask.  The two filter constants
  are distinct.
\<close>

theorem ioevent_modify_changes:
  assumes "EVFILT_READ K \<noteq> EVFILT_WRITE K"
  shows "(\<exists>ch. trace (snd (ioevent_modify K IOEVENT_USE_KQUEUE os p fd e data w))
               = trace w @ [Sys_kevent (poll_fd p) ch NULL 0 None]
          \<and> length ch = 2
          \<and> (\<exists>k. filter (\<lambda>k. kev_filter k = EVFILT_READ K) ch = [k]
                 \<and> kev_ident k = fd \<and> kev_udata k = data
                 \<and> kev_flags k = (if e AND IOEVENT_READ K \<noteq> 0
                                  then EV_ADD K OR ucast (extra_events p) else EV_DELETE K))
          \<and> (\<exists>k. filter (\<lambda>k. kev_filter k = EVFILT_WRITE K) ch = [k]
                 \<and> kev_ident k = fd \<and> kev_udata k = data
                 \<and> kev_flags k = (if e AND IOEVENT_WRITE K \<noteq> 0
                                  then EV_ADD K OR ucast (extra_events p) else EV_DELETE K)))
       \<and> trace (snd (ioevent_modify K IOEVENT_USE_EPOLL os p fd e data w))
           = trace w @ [Sys_epoll_ctl (poll_fd p) EPOLL_CTL_MOD fd
                          (Some \<lparr>ev_events = e OR extra_events p, ev_data_ptr = data\<rparr>)]"
  using assms
  by (simp add: ioevent_modify_def sys_def Let_def EV_SET_sel ucast_or_down ucast_up_down)

theorem ioevent_modify_changes_witness:
  "EVFILT_READ sample_platform \<noteq> EVFILT_WRITE sample_platform
   \<and> (\<exists>ch. trace (snd (ioevent_modify sample_platform IOEVENT_USE_KQUEUE (os_reply reply_ok)
                        sample_poller 5 1 7 sample_world))
              = [Sys_kevent 3 ch NULL 0 None]
          \<and> length ch = 2
          \<and> (\<exists>k. filter (\<lambda>k. kev_filter k = - 1) ch = [k]
                 \<and> kev_ident k = 5 \<and> kev_udata k = 7 \<and> kev_flags k = 0x21)
          \<and> (\<exists>k. filter (\<lambda>k. kev_filter k = - 2) ch = [k]
                 \<and> kev_ident k = 5 \<and> kev_udata k = 7 \<and> kev_flags k = 0x02))
   \<and> trace (snd (ioevent_modify sample_platform IOEVENT_USE_EPOLL (os_reply reply_ok)
                  sample_poller 5 1 7 sample_world))
       = [Sys_epoll_ctl 3 EPOLL_CTL_MOD 5 (Some \<lparr>ev_events = 0x21, ev_data_ptr = 7\<rparr>)]"
proof -
  have h: "EVFILT_READ sample_platform \<noteq> EVFILT_WRITE sample_platform"
    by (simp add: sample_platform_sel)
  show ?thesis
    using h ioevent_modify_changes [OF h, of "os_reply reply_ok" sample_poller 5 1 7
                 sample_world]
    by (simp add: sample_platform_sel sample_poller_sel sample_world_sel)
qed

text \<open>
  C8, as stated, fails.  On the event-port build, on a poller whose
  \<^verbatim>\<open>extra_events\<close> is \<open>0x20\<close>, \<^verbatim>\<open>ioevent_attach\<close> with the mask 1 submits
  \<^verbatim>\<open>port_associate(3, PORT_SOURCE_FD, 5, 1, data)\<close>: the mask as given, not the mask
  combined with \<^verbatim>\<open>extra_events\<close>.
\<close>

theorem ioevent_attach_port_drops_extra_events:
  "ioevent_attach sample_platform IOEVENT_USE_PORT (os_reply reply_ok) sample_poller 5 1 7
       sample_world
     = (0, \<lparr>errno = 0, trace = [Sys_port_associate 3 5 1 7]\<rparr>)
   \<and> extra_events sample_poller = 0x20
   \<and> (1 :: c_int) OR extra_events sample_poller \<noteq> 1"
  by (simp add: ioevent_attach_def sys_def Let_def os_reply_apply reply_ok_def
        sample_poller_sel sample_world_sel)

text \<open>
  C8, amended.  On the epoll build \<^verbatim>\<open>ioevent_attach\<close> and \<^verbatim>\<open>ioevent_modify\<close>
  submit the event word \<^verbatim>\<open>e | ioevent->extra_events\<close>.  On the kqueue build every
  entry that \<^verbatim>\<open>ioevent_attach\<close> submits, and every entry of \<^verbatim>\<open>ioevent_modify\<close>
  other than its \<^verbatim>\<open>EV_DELETE\<close> entries, carries the flags
  \<^verbatim>\<open>EV_ADD | ioevent->extra_events\<close> (in the 16 bits of the flags field).  On the
  event-port build both submit the caller's mask \<^verbatim>\<open>e\<close> alone.
\<close>

theorem ioevent_submitted_flags:
  "trace (snd (ioevent_attach K IOEVENT_USE_EPOLL os p fd e data w))
     = trace w @ [Sys_epoll_ctl (poll_fd p) EPOLL_CTL_ADD fd
                    (Some \<lparr>ev_events = e OR extra_events p, ev_data_ptr = data\<rparr>)]
   \<and> trace (snd (ioevent_modify K IOEVENT_USE_EPOLL os p fd e data w))
     = trace w @ [Sys_epoll_ctl (poll_fd p) EPOLL_CTL_MOD fd
                    (Some \<lparr>ev_events = e OR extra_events p, ev_data_ptr = data\<rparr>)]
   \<and> (\<exists>ch. trace (snd (ioevent_attach K IOEVENT_USE_KQUEUE os p fd e data w))
              = trace w @ [Sys_kevent (poll_fd p) ch NULL 0 None]
         \<and> (\<forall>k \<in> set ch. kev_flags k = EV_ADD K OR ucast (extra_events p)))
   \<and> (\<exists>ch. trace (snd (ioevent_modify K IOEVENT_USE_KQUEUE os p fd e data w))
              = trace w @ [Sys_kevent (poll_fd p) ch NULL 0 None]
         \<and> (\<forall>k \<in> set ch. kev_flags k = EV_ADD K OR ucast (extra_events p)
                         \<or> kev_flags k = EV_DELETE K))
   \<and> trace (snd (ioevent_attach K IOEVENT_USE_PORT os p fd e data w))
     = trace w @ [Sys_port_associate (poll_fd p) fd e data]
   \<and> trace (snd (ioevent_modify K IOEVENT_USE_PORT os p fd e data w))
     = trace w @ [Sys_port_associate (poll_fd p) fd e data]"
  by (simp add: ioevent_attach_def ioevent_modify_def sys_def Let_def EV_SET_sel
        ucast_or_down ucast_up_down)

theorem ioevent_submitted_flags_witness:
  "trace (snd (ioevent_attach sample_platform IOEVENT_USE_EPOLL (os_reply reply_ok)
                 sample_poller 5 1 7 sample_world))
     = [Sys_epoll_ctl 3 EPOLL_CTL_ADD 5 (Some \<lparr>ev_events = 0x21, ev_data_ptr = 7\<rparr>)]
   \<and> (\<exists>ch. trace (snd (ioevent_attach sample_platform IOEVENT_USE_KQUEUE (os_reply reply_ok)
                 sample_poller 5 1 7 sample_world))
              = [Sys_kevent 3 ch NULL 0 None]
         \<and> (\<forall>k \<in> set ch. kev_flags k = 0x21))
   \<and> trace (snd (ioevent_attach sample_platform IOEVENT_USE_PORT (os_reply reply_ok)
                 sample_poller 5 1 7 sample_world))
     = [Sys_port_associate 3 5 1 7]"
  using ioevent_submitted_flags [of sample_platform "os_reply reply_ok" sample_poller 5 1 7
          sample_world]
  by (simp add: sample_platform_sel sample_poller_sel sample_world_sel)

subsection \<open>Waiting\<close>

text \<open>
  C3, as stated, fails.  On the epoll build, let \<^verbatim>\<open>epoll_wait\<close> be interrupted by a
  signal: it returns \<open>-1\<close> with \<^verbatim>\<open>errno = EINTR\<close>.  No event was obtained and the
  condition is one of the transient ones, yet \<^verbatim>\<open>ioevent_poll\<close> returns the hard
  error \<open>-1\<close>.
\<close>

theorem ioevent_poll_epoll_eintr_is_error:
  "ioevent_poll sample_platform IOEVENT_USE_EPOLL
      (os_reply \<lparr>rv = - 1, rptr = NULL, rerrno = Some 4, rnget = 0\<rparr>)
      sample_poller sample_world
     = (- 1, \<lparr>errno = 4, trace = [Sys_epoll_wait 3 4096 8 (Timeout_ms 1000)]\<rparr>)
   \<and> EINTR sample_platform = 4"
  by (simp add: ioevent_poll_def sys_def Let_def sample_platform_def os_reply_def
        sample_poller_def sample_world_def)

text \<open>
  C3, amended.  On the epoll and kqueue builds \<^verbatim>\<open>ioevent_poll\<close> returns the result
  of \<^verbatim>\<open>epoll_wait\<close> or \<^verbatim>\<open>kevent\<close> unchanged (so an interrupted wait is returned
  as \<open>-1\<close>).  On the event-port build, with \<^verbatim>\<open>nget\<close> the count \<^verbatim>\<open>port_getn\<close>
  leaves behind: when \<^verbatim>\<open>port_getn\<close> returns 0 the result is \<^verbatim>\<open>nget\<close>; when it
  fails with \<^verbatim>\<open>errno\<close> one of \<^verbatim>\<open>EINTR\<close>, \<^verbatim>\<open>EAGAIN\<close>, \<^verbatim>\<open>ETIME\<close> the
  result is again \<^verbatim>\<open>nget\<close>, a success with the partial count (possibly 0); when it
  fails with any other \<^verbatim>\<open>errno\<close> the result is \<open>-1\<close>, whatever \<^verbatim>\<open>nget\<close> is.
\<close>

theorem ioevent_poll_result:
  "fst (ioevent_poll K IOEVENT_USE_EPOLL os p w) =
     rv (os (trace w) (Sys_epoll_wait (poll_fd p) (events p) (size_p p) (timeout p)))
   \<and> fst (ioevent_poll K IOEVENT_USE_KQUEUE os p w) =
     rv (os (trace w) (Sys_kevent (poll_fd p) [] (events p) (size_p p) (Some (timeout p))))
   \<and> fst (ioevent_poll K IOEVENT_USE_PORT os p w) =
     (let r = os (trace w) (Sys_port_getn (poll_fd p) (events p) (size_p p) 1 (timeout p));
          en = errno (snd (ioevent_poll K IOEVENT_USE_PORT os p w))
      in if rv r = 0 then rnget r
         else if en = EINTR K \<or> en = EAGAIN K \<or> en = ETIME K then rnget r
         else - 1)"
  by (auto simp: ioevent_poll_def sys_def Let_def split_beta word_gt_0)

theorem ioevent_poll_result_witness:
  "fst (ioevent_poll sample_platform IOEVENT_USE_PORT
          (os_reply \<lparr>rv = - 1, rptr = NULL, rerrno = Some 62, rnget = 2\<rparr>)
          sample_poller sample_world) = 2
   \<and> fst (ioevent_poll sample_platform IOEVENT_USE_PORT
          (os_reply \<lparr>rv = - 1, rptr = NULL, rerrno = Some 9, rnget = 2\<rparr>)
          sample_poller sample_world) = - 1
   \<and> fst (ioevent_poll sample_platform IOEVENT_USE_KQUEUE
          (os_reply \<lparr>rv = - 1, rptr = NULL, rerrno = Some 4, rnget = 0\<rparr>)
          sample_poller sample_world) = - 1"
proof -
  have e1: "errno (snd (ioevent_poll sample_platform IOEVENT_USE_PORT
          (os_reply \<lparr>rv = - 1, rptr = NULL, rerrno = Some 62, rnget = 2\<rparr>)
          sample_poller sample_world)) = 62"
    by (simp add: ioevent_poll_def sys_def Let_def os_reply_apply split_beta)
  have e2: "errno (snd (ioevent_poll sample_platform IOEVENT_USE_PORT
          (os_reply \<lparr>rv = - 1, rptr = NULL, rerrno = Some 9, rnget = 2\<rparr>)
          sample_poller sample_world)) = 9"
    by (simp add: ioevent_poll_def sys_def Let_def os_reply_apply split_beta)
  show ?thesis
    using ioevent_poll_result [of sample_platform
            "os_reply \<lparr>rv = - 1, rptr = NULL, rerrno = Some 62, rnget = 2\<rparr>"
            sample_poller sample_world]
          ioevent_poll_result [of sample_platform
            "os_reply \<lparr>rv = - 1, rptr = NULL, rerrno = Some 9, rnget = 2\<rparr>"
            sample_poller sample_world]
          ioevent_poll_result [of sample_platform
            "os_reply \<lparr>rv = - 1, rptr = NULL, rerrno = Some 4, rnget = 0\<rparr>"
            sample_poller sample_world]
    by (simp add: e1 e2 os_reply_apply sample_platform_sel Let_def)
qed

text \<open>
  C7.  Let the operating system keep the contract of the waiting calls
  (\<open>kernel_respects_max\<close>) and let the capacity \<^verbatim>\<open>size\<close> be positive.  Then every
  \<^verbatim>\<open>ioevent_poll\<close> whose result is not negative returns at most \<^verbatim>\<open>size\<close>, and it
  makes exactly one call, a waiting call that is given the buffer \<^verbatim>\<open>events\<close> of the
  poller with the capacity \<^verbatim>\<open>size\<close>: it allocates nothing and frees nothing.
\<close>

theorem ioevent_poll_bounded:
  assumes "kernel_respects_max os" and "0 <s size_p p"
    and "0 \<le>s fst (ioevent_poll K B os p w)"
  shows "fst (ioevent_poll K B os p w) \<le>s size_p p
       \<and> (\<exists>c. trace (snd (ioevent_poll K B os p w)) = trace w @ [c]
              \<and> wait_buffer c = Some (events p, size_p p))"
proof (cases B)
  case IOEVENT_USE_EPOLL
  then show ?thesis using assms(1,2)
    by (simp add: ioevent_poll_def sys_def Let_def kernel_respects_max_def)
next
  case IOEVENT_USE_KQUEUE
  then show ?thesis using assms(1,2)
    by (simp add: ioevent_poll_def sys_def Let_def kernel_respects_max_def)
next
  case IOEVENT_USE_PORT
  let ?r = "os (trace w) (Sys_port_getn (poll_fd p) (events p) (size_p p) 1 (timeout p))"
  have one: "(1 :: 32 word) \<le>s size_p p" using assms(2)
    by (simp add: word_sle_eq word_sless_alt)
  have b: "rnget ?r \<le>s size_p p"
  proof -
    from assms(1,2) have "rnget ?r \<le> size_p p \<or> rnget ?r = 1"
      unfolding kernel_respects_max_def by blast
    then show ?thesis using sle_of_ule [OF assms(2)] one by auto
  qed
  have z: "(0 :: 32 word) \<le>s size_p p" using assms(2)
    by (simp add: word_sle_eq word_sless_alt)
  show ?thesis using IOEVENT_USE_PORT assms(3) b z
    by (auto simp: ioevent_poll_def sys_def Let_def split: if_splits)
qed

theorem ioevent_poll_bounded_witness:
  "kernel_respects_max os_two_ready \<and> 0 <s size_p sample_poller
   \<and> 0 \<le>s fst (ioevent_poll sample_platform IOEVENT_USE_PORT os_two_ready sample_poller
                  sample_world)
   \<and> fst (ioevent_poll sample_platform IOEVENT_USE_PORT os_two_ready sample_poller
            sample_world) \<le>s 8
   \<and> (\<exists>c. trace (snd (ioevent_poll sample_platform IOEVENT_USE_PORT os_two_ready
                       sample_poller sample_world)) = [c]
          \<and> wait_buffer c = Some (4096, 8))"
proof -
  have a: "0 <s size_p sample_poller"
    by (simp add: sample_poller_def word_sless_alt)
  have b: "0 \<le>s fst (ioevent_poll sample_platform IOEVENT_USE_PORT os_two_ready sample_poller
                  sample_world)"
    by (simp add: ioevent_poll_def sys_def Let_def os_two_ready_def sample_poller_def
          sample_world_def word_sle_eq)
  have s: "size_p sample_poller = 8" "events sample_poller = 4096" "trace sample_world = []"
    by (simp_all add: sample_poller_def sample_world_def)
  show ?thesis
    using ioevent_poll_bounded [OF os_two_ready_respects_max a b] a b
    by (simp add: os_two_ready_respects_max s)
qed

subsection \<open>Decoding\<close>

text \<open>
  C6.  Decoding a kqueue event record: the filter \<^verbatim>\<open>EVFILT_READ\<close> gives the readable
  bit \<^verbatim>\<open>KPOLLIN\<close>, the filter \<^verbatim>\<open>EVFILT_WRITE\<close> gives the writable bit
  \<^verbatim>\<open>KPOLLOUT\<close>, and the hang-up bit \<^verbatim>\<open>KPOLLHUP\<close> is OR-ed into the result exactly
  when the record carries \<^verbatim>\<open>EV_EOF\<close>, in the same way for a read record, a write
  record and any other record.  The two filter constants are distinct.
\<close>

theorem kqueue_ev_convert_decode:
  assumes "EVFILT_READ K \<noteq> EVFILT_WRITE K"
  shows "kqueue_ev_convert K (EVFILT_READ K) flags =
           (if flags AND EV_EOF K \<noteq> 0 then KPOLLIN K OR KPOLLHUP K else KPOLLIN K)
       \<and> kqueue_ev_convert K (EVFILT_WRITE K) flags =
           (if flags AND EV_EOF K \<noteq> 0 then KPOLLOUT K OR KPOLLHUP K else KPOLLOUT K)
       \<and> (flags AND EV_EOF K \<noteq> 0 \<longrightarrow>
            kqueue_ev_convert K event flags AND KPOLLHUP K = KPOLLHUP K)
       \<and> (flags AND EV_EOF K = 0 \<longrightarrow>
            kqueue_ev_convert K event flags =
              kqueue_ev_convert K event 0)"
  using assms by (auto simp: kqueue_ev_convert_def Let_def word_bw_assocs word_bw_comms)

theorem kqueue_ev_convert_decode_witness:
  "EVFILT_READ sample_platform \<noteq> EVFILT_WRITE sample_platform
   \<and> kqueue_ev_convert sample_platform (- 1) 0x8000 = 0x021
   \<and> kqueue_ev_convert sample_platform (- 2) 0x8000 = 0x024
   \<and> kqueue_ev_convert sample_platform (- 1) 0 = 0x001
   \<and> kqueue_ev_convert sample_platform (- 2) 0x8001 AND 0x020 = 0x020"
proof -
  have h: "EVFILT_READ sample_platform \<noteq> EVFILT_WRITE sample_platform"
    by (simp add: sample_platform_def)
  show ?thesis
    using h kqueue_ev_convert_decode [OF h, of "0x8000" "- 2"]
      kqueue_ev_convert_decode [OF h, of "0" "- 2"]
      kqueue_ev_convert_decode [OF h, of "0x8001" "- 2"]
    by (simp add: sample_platform_def)
qed

end
